theory Spec2Isabelle
  imports Complex_Main
begin

section \<open>JavaScript values used by the pagination handlers\<close>

text \<open>
  The handlers of \<^verbatim>\<open>user.js\<close> compute with the numbers \<^verbatim>\<open>page\<close>, \<^verbatim>\<open>size\<close> and
  \<^verbatim>\<open>count\<close>: integers, or one of the non-finite values that arithmetic on a missing
  operand or a division by zero produces. Negative zero is not told apart from zero.

  \<open>Fin i\<close> is the number whose value is the integer \<open>i\<close>, and the arithmetic below is
  exact integer arithmetic. The code computes in IEEE doubles. The two agree on the
  integers up to \<open>2^53\<close> in magnitude: these are doubles, a sum, difference or product
  that stays in that range is not rounded, the rounded quotient of two of them has the
  ceiling of the exact quotient, and they print as plain decimal numbers. Beyond \<open>2^53\<close>
  the code rounds (\<open>2^53 + 1\<close> is \<open>2^53\<close>) and from \<open>10^21\<close> on it prints in exponent
  notation; the model does neither. The statements below that say which value of
  \<^verbatim>\<open>page\<close>, \<^verbatim>\<open>size\<close> or \<^verbatim>\<open>count\<close> is computed or printed therefore take the three below
  \<open>2^53\<close> in magnitude. The length of an array, which cursor mode prints as the size, is
  below \<open>2^32\<close> in the code.
\<close>

datatype jsnum = Fin int | NaN | PosInf | NegInf

datatype jsval = JSUndefined | JSNumber jsnum | JSString string

text \<open>
  A number-valued property that may be missing: \<open>None\<close> reads as \<^verbatim>\<open>undefined\<close>.
  \<open>field\<close> is the value read, \<open>ToNumber\<close> what arithmetic makes of it.
\<close>

definition field :: "jsnum option \<Rightarrow> jsval" where
  "field v = (case v of None \<Rightarrow> JSUndefined | Some n \<Rightarrow> JSNumber n)"

definition ToNumber :: "jsnum option \<Rightarrow> jsnum" where
  "ToNumber v = (case v of None \<Rightarrow> NaN | Some n \<Rightarrow> n)"

subsection \<open>Arithmetic and comparison\<close>

fun num_add :: "jsnum \<Rightarrow> jsnum \<Rightarrow> jsnum" where
  "num_add (Fin a) (Fin b) = Fin (a + b)"
| "num_add NaN _ = NaN"
| "num_add _ NaN = NaN"
| "num_add PosInf NegInf = NaN"
| "num_add NegInf PosInf = NaN"
| "num_add PosInf _ = PosInf"
| "num_add _ PosInf = PosInf"
| "num_add NegInf _ = NegInf"
| "num_add _ NegInf = NegInf"

fun num_neg :: "jsnum \<Rightarrow> jsnum" where
  "num_neg (Fin a) = Fin (- a)"
| "num_neg NaN = NaN"
| "num_neg PosInf = NegInf"
| "num_neg NegInf = PosInf"

definition num_sub :: "jsnum \<Rightarrow> jsnum \<Rightarrow> jsnum" where
  "num_sub a b = num_add a (num_neg b)"

text \<open>The sign of a number, \<open>None\<close> for \<^verbatim>\<open>NaN\<close>.\<close>

fun num_sign :: "jsnum \<Rightarrow> int option" where
  "num_sign (Fin a) = Some (sgn a)"
| "num_sign NaN = None"
| "num_sign PosInf = Some 1"
| "num_sign NegInf = Some (- 1)"

definition signed_inf :: "int \<Rightarrow> jsnum" where
  "signed_inf s = (if s = 0 then NaN else if 0 < s then PosInf else NegInf)"

fun num_mul :: "jsnum \<Rightarrow> jsnum \<Rightarrow> jsnum" where
  "num_mul (Fin a) (Fin b) = Fin (a * b)"
| "num_mul a b =
     (case (num_sign a, num_sign b) of
        (Some s, Some t) \<Rightarrow> signed_inf (s * t)
      | _ \<Rightarrow> NaN)"

text \<open>
  \<^verbatim>\<open>Math.ceil(a / b)\<close>. The quotient of two integers is the only fraction these handlers
  can form and it is rounded up at once, so quotient and ceiling are one operation here:
  the ceiling of the exact quotient. For \<open>a\<close> up to \<open>2^53\<close> in magnitude that is also the
  ceiling of the quotient rounded to a double, since the exact quotient is farther from the
  integer below it than half the spacing of the doubles there.
\<close>

fun ceil_div :: "jsnum \<Rightarrow> jsnum \<Rightarrow> jsnum" where
  "ceil_div (Fin a) (Fin b) = (if b = 0 then signed_inf (sgn a) else Fin (- ((- a) div b)))"
| "ceil_div NaN _ = NaN"
| "ceil_div _ NaN = NaN"
| "ceil_div (Fin a) _ = Fin 0"
| "ceil_div PosInf (Fin b) = (if 0 \<le> b then PosInf else NegInf)"
| "ceil_div NegInf (Fin b) = (if 0 \<le> b then NegInf else PosInf)"
| "ceil_div _ _ = NaN"

text \<open>\<^verbatim>\<open>a < b\<close> on numbers: false as soon as one side is \<^verbatim>\<open>NaN\<close>.\<close>

fun num_less :: "jsnum \<Rightarrow> jsnum \<Rightarrow> bool" where
  "num_less (Fin a) (Fin b) = (a < b)"
| "num_less NaN _ = False"
| "num_less _ NaN = False"
| "num_less NegInf b = (b \<noteq> NegInf)"
| "num_less a PosInf = (a \<noteq> PosInf)"
| "num_less _ _ = False"

text \<open>\<^verbatim>\<open>items.length === size\<close>: strict equality of a length with a value.\<close>

definition length_eq :: "nat \<Rightarrow> jsnum option \<Rightarrow> bool" where
  "length_eq n v = (v = Some (Fin (int n)))"

subsection \<open>Conversion to strings\<close>

text \<open>
  \<open>int_string\<close> is the plain decimal form, which is what the code prints for an integer
  up to \<open>2^53\<close> in magnitude.
\<close>

definition digit :: "nat \<Rightarrow> char" where
  "digit d = ''0123456789ABCDEF'' ! d"

fun nat_digits :: "nat \<Rightarrow> string" where
  "nat_digits n = (if n < 10 then [digit n] else nat_digits (n div 10) @ [digit (n mod 10)])"

declare nat_digits.simps [simp del]

definition int_string :: "int \<Rightarrow> string" where
  "int_string i = (if i < 0 then CHR ''-'' # nat_digits (nat (- i)) else nat_digits (nat i))"

fun num_string :: "jsnum \<Rightarrow> string" where
  "num_string (Fin i) = int_string i"
| "num_string NaN = ''NaN''"
| "num_string PosInf = ''Infinity''"
| "num_string NegInf = ''-Infinity''"

fun ToString :: "jsval \<Rightarrow> string" where
  "ToString JSUndefined = ''undefined''"
| "ToString (JSNumber n) = num_string n"
| "ToString (JSString s) = s"

subsection \<open>\<^verbatim>\<open>URLSearchParams\<close>\<close>

text \<open>
  \<^verbatim>\<open>new URLSearchParams({k1: v1, k2: v2})\<close> keeps the entries in order with every value
  converted to a string; its string form is the \<^verbatim>\<open>application/x-www-form-urlencoded\<close>
  serialisation. Strings are sequences of UTF-8 bytes.
\<close>

definition URLSearchParams :: "(string \<times> jsval) list \<Rightarrow> (string \<times> string) list" where
  "URLSearchParams init = map (\<lambda>(k, v). (k, ToString v)) init"

definition unreserved :: "char \<Rightarrow> bool" where
  "unreserved c =
     (let n = (of_char c :: nat) in
        (48 \<le> n \<and> n \<le> 57) \<or> (65 \<le> n \<and> n \<le> 90) \<or> (97 \<le> n \<and> n \<le> 122)
        \<or> c = CHR ''*'' \<or> c = CHR ''-'' \<or> c = CHR ''.'' \<or> c = CHR ''_'')"

definition encode_byte :: "char \<Rightarrow> string" where
  "encode_byte c =
     (if unreserved c then [c]
      else if c = CHR '' '' then ''+''
      else (let n = (of_char c :: nat) in [CHR ''%'', digit (n div 16), digit (n mod 16)]))"

definition urlencode :: "string \<Rightarrow> string" where
  "urlencode s = concat (map encode_byte s)"

text \<open>\<^verbatim>\<open>Array.prototype.join\<close> on strings.\<close>

fun join :: "string \<Rightarrow> string list \<Rightarrow> string" where
  "join sep [] = []"
| "join sep [x] = x"
| "join sep (x # y # ys) = x @ sep @ join sep (y # ys)"

definition params_toString :: "(string \<times> string) list \<Rightarrow> string" where
  "params_toString ps = join ''&'' (map (\<lambda>(k, v). urlencode k @ ''='' @ urlencode v) ps)"

section \<open>Page requests, items and thrown values\<close>

text \<open>
  A page request is an object with optional keys: \<^verbatim>\<open>'before' in pageRequest\<close> holds when
  the field is \<open>Some\<close>. A field that is \<open>None\<close> reads as \<^verbatim>\<open>undefined\<close>.
\<close>

record PageRequest =
  before :: "string option"
  page :: "jsnum option"
  size :: "jsnum option"

record Item =
  created :: string

text \<open>
  What a collaborator (the database, the query parsers) throws: an object with an optional
  \<^verbatim>\<open>code\<close> property and a message.
\<close>

record thrown =
  code :: "string option"
  message :: string

text \<open>
  What a handler throws: \<^verbatim>\<open>new Error(msg)\<close>, the \<^verbatim>\<open>TypeError\<close> of reading a property of
  \<^verbatim>\<open>undefined\<close>, \<^verbatim>\<open>new RangeNotSatisfiableError()\<close> (the class of \<^verbatim>\<open>errors.js\<close>), or a
  collaborator's value passed on as it is.
\<close>

datatype exn =
    Error string
  | TypeError
  | RangeNotSatisfiableError
  | Thrown thrown

section \<open>\<^verbatim>\<open>getLinkHeader\<close>\<close>

text \<open>One relation, \<^verbatim>\<open>`<${url}?${params}>; rel="name"`\<close>.\<close>

definition relation :: "string \<Rightarrow> (string \<times> string) list \<Rightarrow> string \<Rightarrow> string" where
  "relation url params name =
     ''<'' @ url @ ''?'' @ params_toString params @ ''>; rel='' @ [CHR 0x22] @ name @ [CHR 0x22]"

text \<open>
  Reading a relation back: \<open>is_rel name r\<close> holds when the string \<open>r\<close> ends in
  \<^verbatim>\<open>; rel="name"\<close>.
\<close>

definition rel_suffix :: "string \<Rightarrow> string" where
  "rel_suffix name = ''; rel='' @ [CHR 0x22] @ name @ [CHR 0x22]"

definition is_rel :: "string \<Rightarrow> string \<Rightarrow> bool" where
  "is_rel name r = (take (length (rel_suffix name)) (rev r) = rev (rel_suffix name))"

text \<open>
  The array \<^verbatim>\<open>rels\<close> as it stands before the final \<^verbatim>\<open>join\<close>. With no item,
  \<^verbatim>\<open>items[items.length - 1]\<close> is \<^verbatim>\<open>undefined\<close> and reading \<^verbatim>\<open>created\<close> of it throws.
\<close>

definition rels ::
  "string \<Rightarrow> PageRequest \<Rightarrow> 'a Item_scheme list \<Rightarrow> jsnum option \<Rightarrow> exn + string list" where
  "rels url pageRequest items count =
     (if before pageRequest \<noteq> None then
        (let size = size pageRequest in
         if length_eq (length items) size then
           (if items = [] then Inl TypeError
            else
              (let oldest = last items;
                   nextParams = URLSearchParams
                     [(''size'', field size), (''before'', JSString (created oldest))]
               in Inr [relation url nextParams ''next'']))
         else Inr [])
      else if page pageRequest \<noteq> None then
        (let size = size pageRequest;
             page = ToNumber (page pageRequest);
             pages = ceil_div (ToNumber count) (ToNumber size);
             rels1 =
               (if num_less page pages then
                  [relation url
                     (URLSearchParams
                        [(''size'', field size), (''page'', JSNumber (num_add page (Fin 1)))])
                     ''next'']
                else []);
             rels2 = rels1 @
               [relation url
                  (URLSearchParams [(''size'', field size), (''page'', JSNumber pages)]) ''last''];
             rels3 = rels2 @
               [relation url
                  (URLSearchParams [(''size'', field size), (''page'', JSNumber (Fin 1))]) ''first''];
             rels4 = rels3 @
               (if num_less (Fin 1) page then
                  [relation url
                     (URLSearchParams
                        [(''size'', field size), (''page'', JSNumber (num_sub page (Fin 1)))])
                     ''previous'']
                else [])
         in Inr rels4)
      else Inl (Error ''unknown page request type''))"

definition getLinkHeader ::
  "string \<Rightarrow> PageRequest \<Rightarrow> 'a Item_scheme list \<Rightarrow> jsnum option \<Rightarrow> exn + string" where
  "getLinkHeader url pageRequest items count =
     (case rels url pageRequest items count of
        Inl e \<Rightarrow> Inl e
      | Inr rs \<Rightarrow> Inr (join '', '' rs))"

section \<open>The handlers\<close>

text \<open>
  The request as the handlers read it: the path and the query of \<^verbatim>\<open>request.url\<close>, and
  \<^verbatim>\<open>request.auth.user._id\<close>.
\<close>

record Request =
  pathname :: string
  searchParams :: "(string \<times> string) list"
  user_id :: string

text \<open>What the data layer returns: a total and a page of rows.\<close>

record counted =
  count :: "jsnum option"

record 'a uploads_data = counted +
  uploads :: "'a Item_scheme list"

record 'a pin_requests = counted +
  results :: "'a Item_scheme list"

record Key =
  key_id :: string

text \<open>The query handed to \<^verbatim>\<open>listPsaPinRequests\<close>: the validated parameters, spread, then
  \<^verbatim>\<open>limit\<close> and \<^verbatim>\<open>offset\<close>.\<close>

record 'd psa_query =
  spread :: 'd
  limit :: jsval
  offset :: jsval

text \<open>\<^verbatim>\<open>env.db\<close>; a call either throws or returns.\<close>

record ('a, 'd) db =
  listUploads :: "string \<Rightarrow> PageRequest \<Rightarrow> thrown + 'a uploads_data"
  listKeys :: "string \<Rightarrow> thrown + Key list"
  listPsaPinRequests :: "string list \<Rightarrow> 'd psa_query \<Rightarrow> thrown + 'a pin_requests"

text \<open>The result of \<^verbatim>\<open>validateSearchParams\<close>.\<close>

record 'd psa_params =
  params_error :: "thrown option"
  params_data :: 'd

text \<open>
  A response: the body given to \<^verbatim>\<open>JSONResponse\<close> and the \<^verbatim>\<open>headers\<close> object given with
  it, a key being present when the map is defined there.
\<close>

record 'b response =
  body :: 'b
  headers :: "string \<rightharpoonup> jsval"

record 's pins_body =
  body_count :: "jsnum option"
  body_results :: "'s list"

text \<open>
  \<^verbatim>\<open>userUploadsGet\<close>. The parser \<^verbatim>\<open>pagination\<close> of \<^verbatim>\<open>utils/pagination.js\<close> is a
  parameter; it throws or returns a page request.
\<close>

definition userUploadsGet ::
  "((string \<times> string) list \<Rightarrow> thrown + PageRequest) \<Rightarrow> ('a, 'd) db \<Rightarrow> Request
     \<Rightarrow> exn + ('a Item_scheme list) response" where
  "userUploadsGet pagination db request =
     (case pagination (searchParams request) of
        Inl e \<Rightarrow> Inl (Thrown e)
      | Inr pageRequest \<Rightarrow>
         (case listUploads db (user_id request) pageRequest of
            Inl err \<Rightarrow>
              (if code err = Some ''RANGE_NOT_SATISFIABLE_ERROR_DB''
               then Inl RangeNotSatisfiableError
               else Inl (Thrown err))
          | Inr data \<Rightarrow>
             (let headers0 = [''Count'' \<mapsto> field (count data)];
                  headers1 =
                    (if size pageRequest \<noteq> None
                     then headers0(''Size'' \<mapsto> field (size pageRequest)) else headers0);
                  headers2 =
                    (if page pageRequest \<noteq> None
                     then headers1(''Page'' \<mapsto> field (page pageRequest)) else headers1)
              in case getLinkHeader (pathname request) pageRequest (uploads data) (count data) of
                   Inl e \<Rightarrow> Inl e
                 | Inr link \<Rightarrow>
                    (let headers3 =
                       (if link \<noteq> [] then headers2(''Link'' \<mapsto> JSString link) else headers2)
                     in Inr \<lparr>body = uploads data, headers = headers3\<rparr>))))"

text \<open>
  \<^verbatim>\<open>userPinsGet\<close>. \<^verbatim>\<open>pagination\<close>, \<^verbatim>\<open>validateSearchParams\<close> and
  \<^verbatim>\<open>toPinStatusResponse\<close> are parameters. \<^verbatim>\<open>Object.fromEntries\<close> keeps the last value
  of a repeated key.
\<close>

definition userPinsGet ::
  "((string \<times> string) list \<Rightarrow> thrown + PageRequest)
     \<Rightarrow> ((string \<rightharpoonup> string) \<Rightarrow> 'd psa_params)
     \<Rightarrow> ('a Item_scheme \<Rightarrow> 's)
     \<Rightarrow> ('a, 'd) db \<Rightarrow> Request \<Rightarrow> exn + ('s pins_body) response" where
  "userPinsGet pagination validateSearchParams toPinStatusResponse db request =
     (case pagination (searchParams request) of
        Inl e \<Rightarrow> Inl (Thrown e)
      | Inr pageRequest \<Rightarrow>
         (let params = map_of (rev (searchParams request));
              psaParams = validateSearchParams params
          in case params_error psaParams of
               Some e \<Rightarrow> Inl (Thrown e)
             | None \<Rightarrow>
                (case listKeys db (user_id request) of
                   Inl e \<Rightarrow> Inl (Thrown e)
                 | Inr keys \<Rightarrow>
                    (let tokens = map key_id keys;
                         query = \<lparr>spread = params_data psaParams,
                                  limit = field (size pageRequest),
                                  offset = JSNumber (num_mul (ToNumber (size pageRequest))
                                    (num_sub (ToNumber (page pageRequest)) (Fin 1)))\<rparr>
                     in case listPsaPinRequests db tokens query of
                          Inl err \<Rightarrow>
                            (if code err = Some ''RANGE_NOT_SATISFIABLE_ERROR_DB''
                             then Inl RangeNotSatisfiableError
                             else Inl (Thrown err))
                        | Inr pinRequests \<Rightarrow>
                           (let pins = map toPinStatusResponse (results pinRequests);
                                headers0 = [''Count'' \<mapsto> field (count pinRequests)];
                                headers1 =
                                  (if size pageRequest \<noteq> None
                                   then headers0(''Size'' \<mapsto> field (size pageRequest))
                                   else headers0);
                                headers2 =
                                  (if page pageRequest \<noteq> None
                                   then headers1(''Page'' \<mapsto> field (page pageRequest))
                                   else headers1)
                            in case getLinkHeader (pathname request) pageRequest
                                      (results pinRequests) (count pinRequests) of
                                 Inl e \<Rightarrow> Inl e
                               | Inr link \<Rightarrow>
                                  (let headers3 =
                                     (if link \<noteq> []
                                      then headers2(''Link'' \<mapsto> JSString link) else headers2)
                                   in Inr \<lparr>body = \<lparr>body_count = count pinRequests,
                                                     body_results = pins\<rparr>,
                                           headers = headers3\<rparr>))))))"

section \<open>Facts about the conversions\<close>

text \<open>
  On integers with a non-zero divisor, \<open>ceil_div\<close> is the ceiling of the real quotient.
\<close>

lemma ceil_div_Fin:
  "b \<noteq> 0 \<Longrightarrow> ceil_div (Fin a) (Fin b) = Fin \<lceil>real_of_int a / real_of_int b\<rceil>"
  by (simp add: ceiling_divide_eq_div)

lemma int_string_small: "int_string 0 = ''0''" "int_string 1 = ''1''"
  by (simp_all add: int_string_def nat_digits.simps digit_def)

text \<open>Decimal numbers and the parameter names pass through the encoding unchanged.\<close>

lemma digit_unreserved: "\<forall>d<10. unreserved (digit d)"
  by (simp add: eval_nat_numeral All_less_Suc unreserved_def digit_def)

lemma encode_digit: "d < 10 \<Longrightarrow> encode_byte (digit d) = [digit d]"
  using digit_unreserved by (simp add: encode_byte_def)

lemma urlencode_append: "urlencode (a @ b) = urlencode a @ urlencode b"
  by (simp add: urlencode_def)

lemma urlencode_nat_digits: "urlencode (nat_digits n) = nat_digits n"
proof (induction n rule: nat_digits.induct)
  case (1 n)
  show ?case
  proof (cases "n < 10")
    case True
    then show ?thesis by (subst (1 2) nat_digits.simps) (simp add: urlencode_def encode_digit)
  next
    case False
    then have m: "n mod 10 < 10" by simp
    from False 1 have ih: "urlencode (nat_digits (n div 10)) = nat_digits (n div 10)" by simp
    show ?thesis
      using False ih m
      by (subst (1 2) nat_digits.simps)
        (simp add: urlencode_append, simp add: urlencode_def encode_digit)
  qed
qed

lemma urlencode_minus: "urlencode (CHR ''-'' # s) = CHR ''-'' # urlencode s"
  by (simp add: urlencode_def encode_byte_def unreserved_def)

lemma urlencode_int_string: "urlencode (int_string i) = int_string i"
  by (simp add: int_string_def urlencode_minus urlencode_nat_digits)

lemma urlencode_keys:
  "urlencode ''size'' = ''size''" "urlencode ''page'' = ''page''" "urlencode ''before'' = ''before''"
  by (simp_all add: urlencode_def encode_byte_def unreserved_def)

text \<open>
  The serialisation of a value loses nothing: two values with the same encoding are equal,
  so the \<^verbatim>\<open>before\<close> value can be read back from the URL.
\<close>

lemma of_char_less_256: "(of_char c :: nat) < 256"
proof -
  have "(of_char c :: nat) mod 256 = of_char c" by simp
  then show ?thesis by (metis mod_less_divisor zero_less_numeral)
qed

lemma digit_inj: "a < 16 \<Longrightarrow> b < 16 \<Longrightarrow> digit a = digit b \<Longrightarrow> a = b"
proof -
  have d: "distinct ''0123456789ABCDEF''" by simp
  show "a < 16 \<Longrightarrow> b < 16 \<Longrightarrow> digit a = digit b \<Longrightarrow> a = b"
    unfolding digit_def using nth_eq_iff_index_eq [OF d, of a b] by simp
qed

lemma not_unreserved: "\<not> unreserved CHR ''+''" "\<not> unreserved CHR ''%''"
  by (simp_all add: unreserved_def)

lemma encode_byte_prefix_free:
  assumes "encode_byte c @ x = encode_byte d @ y"
  shows "c = d \<and> x = y"
proof -
  let ?n = "of_char c :: nat" and ?m = "of_char d :: nat"
  have hex: "c = d" if "digit (?n div 16) = digit (?m div 16)" "digit (?n mod 16) = digit (?m mod 16)"
  proof -
    have "?n div 16 < 16" and "?m div 16 < 16"
      using of_char_less_256 [of c] of_char_less_256 [of d]
      by (simp_all add: less_mult_imp_div_less del: of_char_mod_256)
    then have q: "?n div 16 = ?m div 16" using that(1) by (rule digit_inj)
    have "?n mod 16 < 16" and "?m mod 16 < 16" by simp_all
    then have r: "?n mod 16 = ?m mod 16" using that(2) by (rule digit_inj)
    from q r have "?n = ?m" by (metis div_mult_mod_eq)
    then show ?thesis by simp
  qed
  show ?thesis
    using assms not_unreserved hex
    by (auto simp: encode_byte_def Let_def split: if_splits)
qed

lemma urlencode_inj: "urlencode a = urlencode b \<Longrightarrow> a = b"
proof (induction a arbitrary: b)
  case Nil
  then show ?case by (cases b) (auto simp: urlencode_def encode_byte_def Let_def split: if_splits)
next
  case (Cons c a)
  show ?case
  proof (cases b)
    case Nil
    with Cons.prems show ?thesis by (auto simp: urlencode_def encode_byte_def Let_def split: if_splits)
  next
    case (Cons d b')
    with Cons.prems have "encode_byte c @ urlencode a = encode_byte d @ urlencode b'"
      by (simp add: urlencode_def)
    then have "c = d \<and> urlencode a = urlencode b'" by (rule encode_byte_prefix_free)
    with Cons.IH Cons show ?thesis by simp
  qed
qed

section \<open>Facts about \<^verbatim>\<open>getLinkHeader\<close> and the handlers\<close>

text \<open>A relation is read back under its own name and under no other of the four.\<close>

lemma is_rel_same: "is_rel name (relation url ps name)"
  by (simp add: is_rel_def relation_def rel_suffix_def)

lemma is_rel_relation:
  "is_rel ''next'' (relation url ps ''next'')"
  "\<not> is_rel ''next'' (relation url ps ''last'')"
  "\<not> is_rel ''next'' (relation url ps ''first'')"
  "\<not> is_rel ''next'' (relation url ps ''previous'')"
  "is_rel ''last'' (relation url ps ''last'')"
  "\<not> is_rel ''last'' (relation url ps ''next'')"
  "\<not> is_rel ''last'' (relation url ps ''first'')"
  "\<not> is_rel ''last'' (relation url ps ''previous'')"
  "is_rel ''first'' (relation url ps ''first'')"
  "\<not> is_rel ''first'' (relation url ps ''next'')"
  "\<not> is_rel ''first'' (relation url ps ''last'')"
  "\<not> is_rel ''first'' (relation url ps ''previous'')"
  "is_rel ''previous'' (relation url ps ''previous'')"
  "\<not> is_rel ''previous'' (relation url ps ''next'')"
  "\<not> is_rel ''previous'' (relation url ps ''last'')"
  "\<not> is_rel ''previous'' (relation url ps ''first'')"
  by (simp_all add: is_rel_def relation_def rel_suffix_def)

text \<open>The relation strings written out.\<close>

lemma relation_size_page:
  "relation url (URLSearchParams [(''size'', field (Some (Fin s))), (''page'', JSNumber (Fin q))]) name
   = ''<'' @ url @ ''?size='' @ int_string s @ ''&page='' @ int_string q
       @ ''>; rel='' @ [CHR 0x22] @ name @ [CHR 0x22]"
  by (simp add: relation_def URLSearchParams_def params_toString_def field_def
      urlencode_keys urlencode_int_string)

lemma relation_size_before:
  "relation url (URLSearchParams [(''size'', field (Some (Fin s))), (''before'', JSString c)]) name
   = ''<'' @ url @ ''?size='' @ int_string s @ ''&before='' @ urlencode c
       @ ''>; rel='' @ [CHR 0x22] @ name @ [CHR 0x22]"
  by (simp add: relation_def URLSearchParams_def params_toString_def field_def
      urlencode_keys urlencode_int_string)

text \<open>The two modes of \<^verbatim>\<open>getLinkHeader\<close>, each with its array of relations.\<close>

lemma rels_offset:
  assumes "before pr = None" "page pr = Some p"
  shows "rels url pr items cnt =
     Inr ((if num_less p (ceil_div (ToNumber cnt) (ToNumber (size pr)))
           then [relation url (URLSearchParams
                   [(''size'', field (size pr)), (''page'', JSNumber (num_add p (Fin 1)))]) ''next'']
           else [])
          @ [relation url (URLSearchParams
               [(''size'', field (size pr)),
                (''page'', JSNumber (ceil_div (ToNumber cnt) (ToNumber (size pr))))]) ''last'',
             relation url (URLSearchParams
               [(''size'', field (size pr)), (''page'', JSNumber (Fin 1))]) ''first'']
          @ (if num_less (Fin 1) p
             then [relation url (URLSearchParams
                     [(''size'', field (size pr)), (''page'', JSNumber (num_sub p (Fin 1)))]) ''previous'']
             else []))"
  using assms by (simp add: rels_def Let_def ToNumber_def)

lemma rels_cursor:
  assumes "before pr \<noteq> None"
  shows "rels url pr items cnt =
     (if size pr = Some (Fin (int (length items))) then
        (if items = [] then Inl TypeError
         else Inr [relation url (URLSearchParams
                     [(''size'', field (size pr)), (''before'', JSString (created (last items)))]) ''next''])
      else Inr [])"
  using assms by (simp add: rels_def Let_def length_eq_def)

lemma getLinkHeader_rels:
  "rels url pr items cnt = Inr rs \<Longrightarrow> getLinkHeader url pr items cnt = Inr (join '', '' rs)"
  by (simp add: getLinkHeader_def)

text \<open>The response of \<^verbatim>\<open>userUploadsGet\<close> once every collaborator has answered.\<close>

lemma userUploadsGet_ok:
  assumes "pagination (searchParams request) = Inr pr"
    and "listUploads db (user_id request) pr = Inr d"
    and "getLinkHeader (pathname request) pr (uploads d) (count d) = Inr link"
  shows "userUploadsGet pagination db request =
     Inr \<lparr>body = uploads d,
          headers =
            (let headers0 = [''Count'' \<mapsto> field (count d)];
                 headers1 = (if size pr \<noteq> None
                             then headers0(''Size'' \<mapsto> field (size pr)) else headers0);
                 headers2 = (if page pr \<noteq> None
                             then headers1(''Page'' \<mapsto> field (page pr)) else headers1)
             in if link \<noteq> [] then headers2(''Link'' \<mapsto> JSString link) else headers2)\<rparr>"
  using assms by (simp add: userUploadsGet_def Let_def)

section \<open>The claims\<close>

text \<open>
  C1. In offset mode (no \<^verbatim>\<open>before\<close> key; \<^verbatim>\<open>page\<close>, \<^verbatim>\<open>size\<close> and the count integers
  below \<open>2^53\<close> in magnitude, \<^verbatim>\<open>size\<close> not zero) the number of pages is the ceiling of
  count / size, a \<^verbatim>\<open>next\<close> relation is emitted exactly when \<^verbatim>\<open>page\<close> is below it, and
  that relation is \<^verbatim>\<open><url?size=SIZE&page=PAGE+1>; rel="next"\<close>.
\<close>

theorem C1_next_iff_page_below_totalPages:
  assumes "before pr = None" and "page pr = Some (Fin p)" and "size pr = Some (Fin s)"
    and "s \<noteq> 0" and "cnt = Some (Fin c)"
    and "\<bar>p\<bar> < 2 ^ 53" and "\<bar>s\<bar> < 2 ^ 53" and "\<bar>c\<bar> < 2 ^ 53"
  shows "\<exists>rs. rels url pr items cnt = Inr rs
           \<and> getLinkHeader url pr items cnt = Inr (join '', '' rs)
           \<and> ((\<exists>r\<in>set rs. is_rel ''next'' r) \<longleftrightarrow> p < \<lceil>real_of_int c / real_of_int s\<rceil>)
           \<and> (\<forall>r\<in>set rs. is_rel ''next'' r \<longrightarrow>
                 r = ''<'' @ url @ ''?size='' @ int_string s @ ''&page='' @ int_string (p + 1)
                       @ ''>; rel='' @ [CHR 0x22] @ ''next'' @ [CHR 0x22])"
proof -
  let ?rs = "(if p < \<lceil>real_of_int c / real_of_int s\<rceil>
              then [relation url (URLSearchParams
                      [(''size'', field (Some (Fin s))), (''page'', JSNumber (Fin (p + 1)))]) ''next'']
              else [])
             @ [relation url (URLSearchParams
                  [(''size'', field (Some (Fin s))),
                   (''page'', JSNumber (Fin \<lceil>real_of_int c / real_of_int s\<rceil>))]) ''last'',
                relation url (URLSearchParams
                  [(''size'', field (Some (Fin s))), (''page'', JSNumber (Fin 1))]) ''first'']
             @ (if 1 < p
                then [relation url (URLSearchParams
                        [(''size'', field (Some (Fin s))), (''page'', JSNumber (Fin (p - 1)))]) ''previous'']
                else [])"
  have r: "rels url pr items cnt = Inr ?rs"
    using assms by (simp add: rels_offset ToNumber_def num_sub_def ceiling_divide_eq_div)
  have g: "getLinkHeader url pr items cnt = Inr (join '', '' ?rs)"
    using r by (rule getLinkHeader_rels)
  have n: "(\<exists>r\<in>set ?rs. is_rel ''next'' r) \<longleftrightarrow> p < \<lceil>real_of_int c / real_of_int s\<rceil>"
    by (auto simp: is_rel_relation)
  have u: "\<forall>r\<in>set ?rs. is_rel ''next'' r \<longrightarrow>
                 r = ''<'' @ url @ ''?size='' @ int_string s @ ''&page='' @ int_string (p + 1)
                       @ ''>; rel='' @ [CHR 0x22] @ ''next'' @ [CHR 0x22]"
    by (auto simp: is_rel_relation) (simp add: relation_size_page)
  from r g n u show ?thesis by blast
qed

theorem C1_witness:
  "before \<lparr>before = None, page = Some (Fin 1), size = Some (Fin 2)\<rparr> = None
   \<and> (2::int) \<noteq> 0
   \<and> \<bar>1::int\<bar> < 2 ^ 53 \<and> \<bar>2::int\<bar> < 2 ^ 53 \<and> \<bar>5::int\<bar> < 2 ^ 53
   \<and> (1::int) < \<lceil>real_of_int 5 / real_of_int 2\<rceil>
   \<and> getLinkHeader ''/user/uploads'' \<lparr>before = None, page = Some (Fin 1), size = Some (Fin 2)\<rparr>
         ([] :: Item list) (Some (Fin 5))
       = Inr (''</user/uploads?size=2&page=2>; rel='' @ [CHR 0x22] @ ''next'' @ [CHR 0x22]
              @ '', </user/uploads?size=2&page=3>; rel='' @ [CHR 0x22] @ ''last'' @ [CHR 0x22]
              @ '', </user/uploads?size=2&page=1>; rel='' @ [CHR 0x22] @ ''first'' @ [CHR 0x22])"
proof -
  have e: "getLinkHeader ''/user/uploads'' \<lparr>before = None, page = Some (Fin 1), size = Some (Fin 2)\<rparr>
         ([] :: Item list) (Some (Fin 5))
       = Inr (''</user/uploads?size=2&page=2>; rel='' @ [CHR 0x22] @ ''next'' @ [CHR 0x22]
              @ '', </user/uploads?size=2&page=3>; rel='' @ [CHR 0x22] @ ''last'' @ [CHR 0x22]
              @ '', </user/uploads?size=2&page=1>; rel='' @ [CHR 0x22] @ ''first'' @ [CHR 0x22])"
    by code_simp
  show ?thesis
    using e C1_next_iff_page_below_totalPages
      [of "\<lparr>before = None, page = Some (Fin 1), size = Some (Fin 2)\<rparr>" 1 2 "Some (Fin 5)" 5
          "''/user/uploads''" "[] :: Item list"]
    by simp
qed

text \<open>
  C2. In cursor mode (a \<^verbatim>\<open>before\<close> key), when as many items came back as \<^verbatim>\<open>size\<close> asks
  for (at least one), exactly one relation is emitted: a \<^verbatim>\<open>next\<close> whose parameters are the
  same \<^verbatim>\<open>size\<close> and \<^verbatim>\<open>before\<close> = \<^verbatim>\<open>created\<close> of the last item, serialised into the URL.
\<close>

theorem C2_cursor_full_page_next_before_oldest:
  assumes "before pr \<noteq> None" and "size pr = Some (Fin (int (length items)))" and "items \<noteq> []"
  shows "rels url pr items cnt =
           Inr [relation url
                  [(''size'', int_string (int (length items))), (''before'', created (last items))]
                  ''next'']
         \<and> getLinkHeader url pr items cnt =
             Inr (''<'' @ url @ ''?size='' @ int_string (int (length items))
                    @ ''&before='' @ urlencode (created (last items))
                    @ ''>; rel='' @ [CHR 0x22] @ ''next'' @ [CHR 0x22])
         \<and> is_rel ''next''
               (''<'' @ url @ ''?size='' @ int_string (int (length items))
                    @ ''&before='' @ urlencode (created (last items))
                    @ ''>; rel='' @ [CHR 0x22] @ ''next'' @ [CHR 0x22])"
proof -
  have r: "rels url pr items cnt =
      Inr [relation url (URLSearchParams
             [(''size'', field (Some (Fin (int (length items))))),
              (''before'', JSString (created (last items)))]) ''next'']"
    using assms by (simp add: rels_cursor)
  have p: "URLSearchParams
             [(''size'', field (Some (Fin (int (length items))))),
              (''before'', JSString (created (last items)))]
           = [(''size'', int_string (int (length items))), (''before'', created (last items))]"
    by (simp add: URLSearchParams_def field_def)
  have s: "relation url (URLSearchParams
             [(''size'', field (Some (Fin (int (length items))))),
              (''before'', JSString (created (last items)))]) ''next''
           = ''<'' @ url @ ''?size='' @ int_string (int (length items))
                    @ ''&before='' @ urlencode (created (last items))
                    @ ''>; rel='' @ [CHR 0x22] @ ''next'' @ [CHR 0x22]"
    by (rule relation_size_before)
  have g: "getLinkHeader url pr items cnt =
      Inr (relation url (URLSearchParams
             [(''size'', field (Some (Fin (int (length items))))),
              (''before'', JSString (created (last items)))]) ''next'')"
    using getLinkHeader_rels [OF r] by simp
  have i: "is_rel ''next'' (relation url (URLSearchParams
             [(''size'', field (Some (Fin (int (length items))))),
              (''before'', JSString (created (last items)))]) ''next'')"
    by (rule is_rel_same)
  from r p have "rels url pr items cnt =
           Inr [relation url
                  [(''size'', int_string (int (length items))), (''before'', created (last items))]
                  ''next'']" by simp
  moreover from g s have "getLinkHeader url pr items cnt =
             Inr (''<'' @ url @ ''?size='' @ int_string (int (length items))
                    @ ''&before='' @ urlencode (created (last items))
                    @ ''>; rel='' @ [CHR 0x22] @ ''next'' @ [CHR 0x22])" by simp
  moreover from i s have "is_rel ''next''
               (''<'' @ url @ ''?size='' @ int_string (int (length items))
                    @ ''&before='' @ urlencode (created (last items))
                    @ ''>; rel='' @ [CHR 0x22] @ ''next'' @ [CHR 0x22])" by simp
  ultimately show ?thesis by blast
qed

theorem C2_witness:
  "before \<lparr>before = Some ''2021-07-15T00:00:00.000Z'', page = None, size = Some (Fin 3)\<rparr> \<noteq> None
   \<and> getLinkHeader ''/user/uploads''
         \<lparr>before = Some ''2021-07-15T00:00:00.000Z'', page = None, size = Some (Fin 3)\<rparr>
         [\<lparr>created = ''2021-07-14T19:27:14.934572+00:00''\<rparr>,
          \<lparr>created = ''2021-07-13T19:27:14.934572+00:00''\<rparr>,
          \<lparr>created = ''2021-07-12T19:27:14.934572+00:00''\<rparr>] None
       = Inr (''</user/uploads?size=3&before=2021-07-12T19%3A27%3A14.934572%2B00%3A00>; rel=''
              @ [CHR 0x22] @ ''next'' @ [CHR 0x22])"
proof -
  have e: "getLinkHeader ''/user/uploads''
         \<lparr>before = Some ''2021-07-15T00:00:00.000Z'', page = None, size = Some (Fin 3)\<rparr>
         [\<lparr>created = ''2021-07-14T19:27:14.934572+00:00''\<rparr>,
          \<lparr>created = ''2021-07-13T19:27:14.934572+00:00''\<rparr>,
          \<lparr>created = ''2021-07-12T19:27:14.934572+00:00''\<rparr>] None
       = Inr (''</user/uploads?size=3&before=2021-07-12T19%3A27%3A14.934572%2B00%3A00>; rel=''
              @ [CHR 0x22] @ ''next'' @ [CHR 0x22])"
    by code_simp
  show ?thesis
    using e C2_cursor_full_page_next_before_oldest
      [of "\<lparr>before = Some ''2021-07-15T00:00:00.000Z'', page = None, size = Some (Fin 3)\<rparr>"
          "[\<lparr>created = ''2021-07-14T19:27:14.934572+00:00''\<rparr>,
            \<lparr>created = ''2021-07-13T19:27:14.934572+00:00''\<rparr>,
            \<lparr>created = ''2021-07-12T19:27:14.934572+00:00''\<rparr>]"
          "''/user/uploads''" None]
    by simp
qed

text \<open>
  C3. In offset mode (\<^verbatim>\<open>size\<close>, not zero, and the count integers below \<open>2^53\<close> in
  magnitude; any \<^verbatim>\<open>page\<close>) a \<^verbatim>\<open>last\<close> relation
  with \<^verbatim>\<open>page\<close> = ceiling of count / size and a \<^verbatim>\<open>first\<close> relation with \<^verbatim>\<open>page=1\<close> are
  always emitted; with count 0 the number of pages is 0 and \<^verbatim>\<open>last\<close> carries \<^verbatim>\<open>page=0\<close>.
\<close>

theorem C3_last_and_first_always:
  assumes "before pr = None" and "page pr = Some p" and "size pr = Some (Fin s)"
    and "s \<noteq> 0" and "cnt = Some (Fin c)"
    and "\<bar>s\<bar> < 2 ^ 53" and "\<bar>c\<bar> < 2 ^ 53"
  shows "\<exists>rs. rels url pr items cnt = Inr rs
           \<and> getLinkHeader url pr items cnt = Inr (join '', '' rs)
           \<and> (''<'' @ url @ ''?size='' @ int_string s @ ''&page=''
                 @ int_string \<lceil>real_of_int c / real_of_int s\<rceil>
                 @ ''>; rel='' @ [CHR 0x22] @ ''last'' @ [CHR 0x22]) \<in> set rs
           \<and> (''<'' @ url @ ''?size='' @ int_string s @ ''&page=1''
                 @ ''>; rel='' @ [CHR 0x22] @ ''first'' @ [CHR 0x22]) \<in> set rs
           \<and> (c = 0 \<longrightarrow>
                 \<lceil>real_of_int c / real_of_int s\<rceil> = 0
                 \<and> (''<'' @ url @ ''?size='' @ int_string s @ ''&page=0''
                       @ ''>; rel='' @ [CHR 0x22] @ ''last'' @ [CHR 0x22]) \<in> set rs)"
proof -
  let ?pages = "\<lceil>real_of_int c / real_of_int s\<rceil>"
  let ?L = "relation url (URLSearchParams
              [(''size'', field (Some (Fin s))), (''page'', JSNumber (Fin ?pages))]) ''last''"
  let ?F = "relation url (URLSearchParams
              [(''size'', field (Some (Fin s))), (''page'', JSNumber (Fin 1))]) ''first''"
  obtain rs where r: "rels url pr items cnt = Inr rs" and m: "?L \<in> set rs" "?F \<in> set rs"
    using assms by (simp add: rels_offset ToNumber_def ceiling_divide_eq_div)
  have g: "getLinkHeader url pr items cnt = Inr (join '', '' rs)"
    using r by (rule getLinkHeader_rels)
  have l: "?L = ''<'' @ url @ ''?size='' @ int_string s @ ''&page='' @ int_string ?pages
                 @ ''>; rel='' @ [CHR 0x22] @ ''last'' @ [CHR 0x22]"
    by (rule relation_size_page)
  have f: "?F = ''<'' @ url @ ''?size='' @ int_string s @ ''&page=1''
                 @ ''>; rel='' @ [CHR 0x22] @ ''first'' @ [CHR 0x22]"
    by (simp add: relation_size_page int_string_small)
  have m1: "(''<'' @ url @ ''?size='' @ int_string s @ ''&page='' @ int_string ?pages
                 @ ''>; rel='' @ [CHR 0x22] @ ''last'' @ [CHR 0x22]) \<in> set rs"
    using m(1) unfolding l .
  have m2: "(''<'' @ url @ ''?size='' @ int_string s @ ''&page=1''
                 @ ''>; rel='' @ [CHR 0x22] @ ''first'' @ [CHR 0x22]) \<in> set rs"
    using m(2) unfolding f .
  have m3: "c = 0 \<longrightarrow> ?pages = 0
      \<and> (''<'' @ url @ ''?size='' @ int_string s @ ''&page=0''
                 @ ''>; rel='' @ [CHR 0x22] @ ''last'' @ [CHR 0x22]) \<in> set rs"
  proof
    assume c0: "c = 0"
    then have p0: "?pages = 0" by simp
    from m1 show "?pages = 0
      \<and> (''<'' @ url @ ''?size='' @ int_string s @ ''&page=0''
                 @ ''>; rel='' @ [CHR 0x22] @ ''last'' @ [CHR 0x22]) \<in> set rs"
      unfolding p0 int_string_small by simp
  qed
  from r g m1 m2 m3 show ?thesis by blast
qed

theorem C3_witness:
  "before \<lparr>before = None, page = Some (Fin 1), size = Some (Fin 10)\<rparr> = None
   \<and> (10::int) \<noteq> 0
   \<and> \<bar>10::int\<bar> < 2 ^ 53 \<and> \<bar>0::int\<bar> < 2 ^ 53
   \<and> \<lceil>real_of_int 0 / real_of_int 10\<rceil> = 0
   \<and> getLinkHeader ''/user/uploads'' \<lparr>before = None, page = Some (Fin 1), size = Some (Fin 10)\<rparr>
         ([] :: Item list) (Some (Fin 0))
       = Inr (''</user/uploads?size=10&page=0>; rel='' @ [CHR 0x22] @ ''last'' @ [CHR 0x22]
              @ '', </user/uploads?size=10&page=1>; rel='' @ [CHR 0x22] @ ''first'' @ [CHR 0x22])"
proof -
  have e: "getLinkHeader ''/user/uploads'' \<lparr>before = None, page = Some (Fin 1), size = Some (Fin 10)\<rparr>
         ([] :: Item list) (Some (Fin 0))
       = Inr (''</user/uploads?size=10&page=0>; rel='' @ [CHR 0x22] @ ''last'' @ [CHR 0x22]
              @ '', </user/uploads?size=10&page=1>; rel='' @ [CHR 0x22] @ ''first'' @ [CHR 0x22])"
    by code_simp
  show ?thesis
    using e C3_last_and_first_always
      [of "\<lparr>before = None, page = Some (Fin 1), size = Some (Fin 10)\<rparr>" "Fin 1" 10
          "Some (Fin 0)" 0 "''/user/uploads''" "[] :: Item list"]
    by simp
qed

text \<open>
  C4. In cursor mode, when fewer items came back than \<^verbatim>\<open>size\<close> asks for, no relation is
  emitted and the header string is empty; and whatever came back, a cursor-mode request
  yields only \<^verbatim>\<open>next\<close> relations, never \<^verbatim>\<open>previous\<close>, \<^verbatim>\<open>first\<close> or \<^verbatim>\<open>last\<close>.
\<close>

theorem C4_cursor_short_page_no_relation:
  assumes "before pr \<noteq> None" and "size pr = Some (Fin s)" and "int (length items) < s"
  shows "rels url pr (items :: 'a Item_scheme list) cnt = Inr []
         \<and> getLinkHeader url pr items cnt = Inr []
         \<and> (\<forall>items' cnt' rs. rels url pr (items' :: 'a Item_scheme list) cnt' = Inr rs \<longrightarrow>
               (\<forall>r\<in>set rs. is_rel ''next'' r \<and> \<not> is_rel ''previous'' r
                              \<and> \<not> is_rel ''first'' r \<and> \<not> is_rel ''last'' r))"
proof -
  have r: "rels url pr items cnt = Inr []"
    using assms by (simp add: rels_cursor)
  have g: "getLinkHeader url pr items cnt = Inr []"
    using getLinkHeader_rels [OF r] by simp
  have a: "\<forall>r\<in>set rs. is_rel ''next'' r \<and> \<not> is_rel ''previous'' r
                              \<and> \<not> is_rel ''first'' r \<and> \<not> is_rel ''last'' r"
    if "rels url pr items' cnt' = Inr rs" for items' :: "'a Item_scheme list" and cnt' rs
    using that assms(1)
    by (auto simp: rels_cursor is_rel_relation split: if_splits)
  from r g a show ?thesis by blast
qed

theorem C4_witness:
  "before \<lparr>before = Some ''2021-07-15T00:00:00.000Z'', page = None, size = Some (Fin 3)\<rparr> \<noteq> None
   \<and> int (length [\<lparr>created = ''2021-07-14T19:27:14.934572+00:00''\<rparr>,
          \<lparr>created = ''2021-07-13T19:27:14.934572+00:00''\<rparr>]) < 3
   \<and> rels ''/user/uploads''
         \<lparr>before = Some ''2021-07-15T00:00:00.000Z'', page = None, size = Some (Fin 3)\<rparr>
         [\<lparr>created = ''2021-07-14T19:27:14.934572+00:00''\<rparr>,
          \<lparr>created = ''2021-07-13T19:27:14.934572+00:00''\<rparr>] None = Inr []
   \<and> getLinkHeader ''/user/uploads''
         \<lparr>before = Some ''2021-07-15T00:00:00.000Z'', page = None, size = Some (Fin 3)\<rparr>
         [\<lparr>created = ''2021-07-14T19:27:14.934572+00:00''\<rparr>,
          \<lparr>created = ''2021-07-13T19:27:14.934572+00:00''\<rparr>] None = Inr []
   \<and> rels ''/user/uploads''
         \<lparr>before = Some ''2021-07-15T00:00:00.000Z'', page = None, size = Some (Fin 3)\<rparr>
         [\<lparr>created = ''2021-07-14T19:27:14.934572+00:00''\<rparr>,
          \<lparr>created = ''2021-07-13T19:27:14.934572+00:00''\<rparr>,
          \<lparr>created = ''2021-07-12T19:27:14.934572+00:00''\<rparr>] None
       = Inr [(''</user/uploads?size=3&before=2021-07-12T19%3A27%3A14.934572%2B00%3A00>; rel=''
            @ [CHR 0x22] @ ''next'' @ [CHR 0x22])]
   \<and> is_rel ''next''
         (''</user/uploads?size=3&before=2021-07-12T19%3A27%3A14.934572%2B00%3A00>; rel=''
            @ [CHR 0x22] @ ''next'' @ [CHR 0x22])
   \<and> \<not> is_rel ''previous''
         (''</user/uploads?size=3&before=2021-07-12T19%3A27%3A14.934572%2B00%3A00>; rel=''
            @ [CHR 0x22] @ ''next'' @ [CHR 0x22])
   \<and> \<not> is_rel ''first''
         (''</user/uploads?size=3&before=2021-07-12T19%3A27%3A14.934572%2B00%3A00>; rel=''
            @ [CHR 0x22] @ ''next'' @ [CHR 0x22])
   \<and> \<not> is_rel ''last''
         (''</user/uploads?size=3&before=2021-07-12T19%3A27%3A14.934572%2B00%3A00>; rel=''
            @ [CHR 0x22] @ ''next'' @ [CHR 0x22])"
proof -
  have e: "rels ''/user/uploads''
         \<lparr>before = Some ''2021-07-15T00:00:00.000Z'', page = None, size = Some (Fin 3)\<rparr>
         [\<lparr>created = ''2021-07-14T19:27:14.934572+00:00''\<rparr>,
          \<lparr>created = ''2021-07-13T19:27:14.934572+00:00''\<rparr>,
          \<lparr>created = ''2021-07-12T19:27:14.934572+00:00''\<rparr>] None
       = Inr [(''</user/uploads?size=3&before=2021-07-12T19%3A27%3A14.934572%2B00%3A00>; rel=''
            @ [CHR 0x22] @ ''next'' @ [CHR 0x22])]"
    by code_simp
  have t: "rels ''/user/uploads''
         \<lparr>before = Some ''2021-07-15T00:00:00.000Z'', page = None, size = Some (Fin 3)\<rparr>
         [\<lparr>created = ''2021-07-14T19:27:14.934572+00:00''\<rparr>,
          \<lparr>created = ''2021-07-13T19:27:14.934572+00:00''\<rparr>] None = Inr []
   \<and> getLinkHeader ''/user/uploads''
         \<lparr>before = Some ''2021-07-15T00:00:00.000Z'', page = None, size = Some (Fin 3)\<rparr>
         [\<lparr>created = ''2021-07-14T19:27:14.934572+00:00''\<rparr>,
          \<lparr>created = ''2021-07-13T19:27:14.934572+00:00''\<rparr>] None = Inr []
   \<and> (\<forall>items' cnt' rs. rels ''/user/uploads''
             \<lparr>before = Some ''2021-07-15T00:00:00.000Z'', page = None, size = Some (Fin 3)\<rparr>
             (items' :: Item list) cnt' = Inr rs \<longrightarrow>
               (\<forall>r\<in>set rs. is_rel ''next'' r \<and> \<not> is_rel ''previous'' r
                              \<and> \<not> is_rel ''first'' r \<and> \<not> is_rel ''last'' r))"
    using C4_cursor_short_page_no_relation
      [of "\<lparr>before = Some ''2021-07-15T00:00:00.000Z'', page = None, size = Some (Fin 3)\<rparr>" 3
          "[\<lparr>created = ''2021-07-14T19:27:14.934572+00:00''\<rparr>,
          \<lparr>created = ''2021-07-13T19:27:14.934572+00:00''\<rparr>]"
          "''/user/uploads''" None]
    by simp
  from t e have "\<forall>r\<in>set [(''</user/uploads?size=3&before=2021-07-12T19%3A27%3A14.934572%2B00%3A00>; rel=''
            @ [CHR 0x22] @ ''next'' @ [CHR 0x22])].
      is_rel ''next'' r \<and> \<not> is_rel ''previous'' r \<and> \<not> is_rel ''first'' r \<and> \<not> is_rel ''last'' r"
    by blast
  with t e show ?thesis by simp
qed

text \<open>
  C5. In offset mode (integers below \<open>2^53\<close> in magnitude, \<^verbatim>\<open>size\<close> not zero): on the
  last page (\<^verbatim>\<open>page\<close> equal to the
  number of pages) no \<^verbatim>\<open>next\<close> relation is emitted; a \<^verbatim>\<open>previous\<close> relation is emitted
  exactly when \<^verbatim>\<open>page\<close> > 1, and it is \<^verbatim>\<open><url?size=SIZE&page=PAGE-1>; rel="previous"\<close>.
\<close>

theorem C5_last_page_no_next_previous_iff:
  assumes "before pr = None" and "page pr = Some (Fin p)" and "size pr = Some (Fin s)"
    and "s \<noteq> 0" and "cnt = Some (Fin c)"
    and "\<bar>p\<bar> < 2 ^ 53" and "\<bar>s\<bar> < 2 ^ 53" and "\<bar>c\<bar> < 2 ^ 53"
  shows "\<exists>rs. rels url pr items cnt = Inr rs
           \<and> getLinkHeader url pr items cnt = Inr (join '', '' rs)
           \<and> (p = \<lceil>real_of_int c / real_of_int s\<rceil> \<longrightarrow> \<not> (\<exists>r\<in>set rs. is_rel ''next'' r))
           \<and> ((\<exists>r\<in>set rs. is_rel ''previous'' r) \<longleftrightarrow> 1 < p)
           \<and> (\<forall>r\<in>set rs. is_rel ''previous'' r \<longrightarrow>
                 r = ''<'' @ url @ ''?size='' @ int_string s @ ''&page='' @ int_string (p - 1)
                       @ ''>; rel='' @ [CHR 0x22] @ ''previous'' @ [CHR 0x22])"
proof -
  let ?rs = "(if p < \<lceil>real_of_int c / real_of_int s\<rceil>
              then [relation url (URLSearchParams
                      [(''size'', field (Some (Fin s))), (''page'', JSNumber (Fin (p + 1)))]) ''next'']
              else [])
             @ [relation url (URLSearchParams
                  [(''size'', field (Some (Fin s))),
                   (''page'', JSNumber (Fin \<lceil>real_of_int c / real_of_int s\<rceil>))]) ''last'',
                relation url (URLSearchParams
                  [(''size'', field (Some (Fin s))), (''page'', JSNumber (Fin 1))]) ''first'']
             @ (if 1 < p
                then [relation url (URLSearchParams
                        [(''size'', field (Some (Fin s))), (''page'', JSNumber (Fin (p - 1)))]) ''previous'']
                else [])"
  have r: "rels url pr items cnt = Inr ?rs"
    using assms by (simp add: rels_offset ToNumber_def num_sub_def ceiling_divide_eq_div)
  have g: "getLinkHeader url pr items cnt = Inr (join '', '' ?rs)"
    using r by (rule getLinkHeader_rels)
  have n: "p = \<lceil>real_of_int c / real_of_int s\<rceil> \<longrightarrow> \<not> (\<exists>r\<in>set ?rs. is_rel ''next'' r)"
    by (auto simp: is_rel_relation)
  have v: "(\<exists>r\<in>set ?rs. is_rel ''previous'' r) \<longleftrightarrow> 1 < p"
    by (auto simp: is_rel_relation)
  have u: "\<forall>r\<in>set ?rs. is_rel ''previous'' r \<longrightarrow>
                 r = ''<'' @ url @ ''?size='' @ int_string s @ ''&page='' @ int_string (p - 1)
                       @ ''>; rel='' @ [CHR 0x22] @ ''previous'' @ [CHR 0x22]"
    by (auto simp: is_rel_relation) (simp add: relation_size_page)
  from r g n v u show ?thesis by blast
qed

theorem C5_witness:
  "before \<lparr>before = None, page = Some (Fin 3), size = Some (Fin 2)\<rparr> = None
   \<and> (2::int) \<noteq> 0
   \<and> \<bar>3::int\<bar> < 2 ^ 53 \<and> \<bar>2::int\<bar> < 2 ^ 53 \<and> \<bar>5::int\<bar> < 2 ^ 53
   \<and> (3::int) = \<lceil>real_of_int 5 / real_of_int 2\<rceil>
   \<and> (1::int) < 3
   \<and> getLinkHeader ''/user/uploads'' \<lparr>before = None, page = Some (Fin 3), size = Some (Fin 2)\<rparr>
         ([] :: Item list) (Some (Fin 5))
       = Inr (''</user/uploads?size=2&page=3>; rel='' @ [CHR 0x22] @ ''last'' @ [CHR 0x22]
              @ '', </user/uploads?size=2&page=1>; rel='' @ [CHR 0x22] @ ''first'' @ [CHR 0x22]
              @ '', </user/uploads?size=2&page=2>; rel='' @ [CHR 0x22] @ ''previous'' @ [CHR 0x22])"
proof -
  have e: "getLinkHeader ''/user/uploads'' \<lparr>before = None, page = Some (Fin 3), size = Some (Fin 2)\<rparr>
         ([] :: Item list) (Some (Fin 5))
       = Inr (''</user/uploads?size=2&page=3>; rel='' @ [CHR 0x22] @ ''last'' @ [CHR 0x22]
              @ '', </user/uploads?size=2&page=1>; rel='' @ [CHR 0x22] @ ''first'' @ [CHR 0x22]
              @ '', </user/uploads?size=2&page=2>; rel='' @ [CHR 0x22] @ ''previous'' @ [CHR 0x22])"
    by code_simp
  show ?thesis
    using e C5_last_page_no_next_previous_iff
      [of "\<lparr>before = None, page = Some (Fin 3), size = Some (Fin 2)\<rparr>" 3 2 "Some (Fin 5)" 5
          "''/user/uploads''" "[] :: Item list"]
    by simp
qed

text \<open>
  C6, as the code has it. The headers of \<^verbatim>\<open>userUploadsGet\<close> always hold a \<^verbatim>\<open>Count\<close> key
  whose value is the count of the data layer; nothing omits it. When the data layer returns
  no count the key is still there, holding \<^verbatim>\<open>undefined\<close>.
\<close>

theorem C6_count_header_always_present:
  assumes "pagination (searchParams request) = Inr pr"
    and "listUploads db (user_id request) pr = Inr d"
    and "userUploadsGet pagination db request = Inr resp"
  shows "headers resp ''Count'' = Some (field (count d))
         \<and> (\<forall>n. count d = Some n \<longrightarrow> headers resp ''Count'' = Some (JSNumber n))
         \<and> (count d = None \<longrightarrow> headers resp ''Count'' = Some JSUndefined)"
proof -
  obtain link where l: "getLinkHeader (pathname request) pr (uploads d) (count d) = Inr link"
    using assms by (auto simp: userUploadsGet_def Let_def split: sum.splits)
  have "headers resp ''Count'' = Some (field (count d))"
    using assms(3) userUploadsGet_ok [where pagination = pagination and request = request
        and pr = pr and db = db and d = d, OF assms(1,2) l]
    by (auto simp: Let_def)
  then show ?thesis by (simp add: field_def)
qed

theorem C6_witness:
  "userUploadsGet
            (\<lambda>_. Inr \<lparr>before = Some ''2021-07-15T00:00:00.000Z'', page = None, size = Some (Fin 3)\<rparr>)
           \<lparr>listUploads = (\<lambda>_ _. Inr \<lparr>count = Some (Fin 7), uploads = [\<lparr>created = ''2021-07-14T19:27:14.934572+00:00''\<rparr>,
          \<lparr>created = ''2021-07-13T19:27:14.934572+00:00''\<rparr>]\<rparr>),
            listKeys = (\<lambda>_. Inr []),
            listPsaPinRequests = (\<lambda>_ (_ :: unit psa_query). Inr \<lparr>count = None, results = []\<rparr>)\<rparr>
           \<lparr>pathname = ''/user/uploads'',
            searchParams = [(''before'', ''2021-07-15T00:00:00.000Z''), (''size'', ''3'')],
            user_id = ''u1''\<rparr>
     = Inr \<lparr>body = [\<lparr>created = ''2021-07-14T19:27:14.934572+00:00''\<rparr>,
          \<lparr>created = ''2021-07-13T19:27:14.934572+00:00''\<rparr>],
            headers = [''Count'' \<mapsto> JSNumber (Fin 7), ''Size'' \<mapsto> JSNumber (Fin 3)]\<rparr>
   \<and> headers \<lparr>body = [\<lparr>created = ''2021-07-14T19:27:14.934572+00:00''\<rparr>,
          \<lparr>created = ''2021-07-13T19:27:14.934572+00:00''\<rparr>],
            headers = [''Count'' \<mapsto> JSNumber (Fin 7), ''Size'' \<mapsto> JSNumber (Fin 3)]\<rparr> ''Count''
       = Some (JSNumber (Fin 7))
   \<and> userUploadsGet
            (\<lambda>_. Inr \<lparr>before = Some ''2021-07-15T00:00:00.000Z'', page = None, size = Some (Fin 3)\<rparr>)
           \<lparr>listUploads = (\<lambda>_ _. Inr \<lparr>count = None, uploads = [\<lparr>created = ''2021-07-14T19:27:14.934572+00:00''\<rparr>,
          \<lparr>created = ''2021-07-13T19:27:14.934572+00:00''\<rparr>]\<rparr>),
            listKeys = (\<lambda>_. Inr []),
            listPsaPinRequests = (\<lambda>_ (_ :: unit psa_query). Inr \<lparr>count = None, results = []\<rparr>)\<rparr>
           \<lparr>pathname = ''/user/uploads'',
            searchParams = [(''before'', ''2021-07-15T00:00:00.000Z''), (''size'', ''3'')],
            user_id = ''u1''\<rparr>
     = Inr \<lparr>body = [\<lparr>created = ''2021-07-14T19:27:14.934572+00:00''\<rparr>,
          \<lparr>created = ''2021-07-13T19:27:14.934572+00:00''\<rparr>],
            headers = [''Count'' \<mapsto> JSUndefined, ''Size'' \<mapsto> JSNumber (Fin 3)]\<rparr>
   \<and> headers \<lparr>body = [\<lparr>created = ''2021-07-14T19:27:14.934572+00:00''\<rparr>,
          \<lparr>created = ''2021-07-13T19:27:14.934572+00:00''\<rparr>],
            headers = [''Count'' \<mapsto> JSUndefined, ''Size'' \<mapsto> JSNumber (Fin 3)]\<rparr> ''Count''
       = Some JSUndefined"
proof -
  have e7: "userUploadsGet
            (\<lambda>_. Inr \<lparr>before = Some ''2021-07-15T00:00:00.000Z'', page = None, size = Some (Fin 3)\<rparr>)
           \<lparr>listUploads = (\<lambda>_ _. Inr \<lparr>count = Some (Fin 7), uploads = [\<lparr>created = ''2021-07-14T19:27:14.934572+00:00''\<rparr>,
          \<lparr>created = ''2021-07-13T19:27:14.934572+00:00''\<rparr>]\<rparr>),
            listKeys = (\<lambda>_. Inr []),
            listPsaPinRequests = (\<lambda>_ (_ :: unit psa_query). Inr \<lparr>count = None, results = []\<rparr>)\<rparr>
           \<lparr>pathname = ''/user/uploads'',
            searchParams = [(''before'', ''2021-07-15T00:00:00.000Z''), (''size'', ''3'')],
            user_id = ''u1''\<rparr>
     = Inr \<lparr>body = [\<lparr>created = ''2021-07-14T19:27:14.934572+00:00''\<rparr>,
          \<lparr>created = ''2021-07-13T19:27:14.934572+00:00''\<rparr>],
            headers = [''Count'' \<mapsto> JSNumber (Fin 7), ''Size'' \<mapsto> JSNumber (Fin 3)]\<rparr>"
    by (simp add: userUploadsGet_def getLinkHeader_def rels_def length_eq_def field_def)
  have eN: "userUploadsGet
            (\<lambda>_. Inr \<lparr>before = Some ''2021-07-15T00:00:00.000Z'', page = None, size = Some (Fin 3)\<rparr>)
           \<lparr>listUploads = (\<lambda>_ _. Inr \<lparr>count = None, uploads = [\<lparr>created = ''2021-07-14T19:27:14.934572+00:00''\<rparr>,
          \<lparr>created = ''2021-07-13T19:27:14.934572+00:00''\<rparr>]\<rparr>),
            listKeys = (\<lambda>_. Inr []),
            listPsaPinRequests = (\<lambda>_ (_ :: unit psa_query). Inr \<lparr>count = None, results = []\<rparr>)\<rparr>
           \<lparr>pathname = ''/user/uploads'',
            searchParams = [(''before'', ''2021-07-15T00:00:00.000Z''), (''size'', ''3'')],
            user_id = ''u1''\<rparr>
     = Inr \<lparr>body = [\<lparr>created = ''2021-07-14T19:27:14.934572+00:00''\<rparr>,
          \<lparr>created = ''2021-07-13T19:27:14.934572+00:00''\<rparr>],
            headers = [''Count'' \<mapsto> JSUndefined, ''Size'' \<mapsto> JSNumber (Fin 3)]\<rparr>"
    by (simp add: userUploadsGet_def getLinkHeader_def rels_def length_eq_def field_def)
  show ?thesis
    using e7 eN
      C6_count_header_always_present
      [where pagination = "(\<lambda>_. Inr \<lparr>before = Some ''2021-07-15T00:00:00.000Z'', page = None, size = Some (Fin 3)\<rparr>)"
         and request = "\<lparr>pathname = ''/user/uploads'',
            searchParams = [(''before'', ''2021-07-15T00:00:00.000Z''), (''size'', ''3'')],
            user_id = ''u1''\<rparr>"
         and db = "\<lparr>listUploads = (\<lambda>_ _. Inr \<lparr>count = Some (Fin 7), uploads = [\<lparr>created = ''2021-07-14T19:27:14.934572+00:00''\<rparr>,
          \<lparr>created = ''2021-07-13T19:27:14.934572+00:00''\<rparr>]\<rparr>),
            listKeys = (\<lambda>_. Inr []),
            listPsaPinRequests = (\<lambda>_ (_ :: unit psa_query). Inr \<lparr>count = None, results = []\<rparr>)\<rparr>"
         and pr = "\<lparr>before = Some ''2021-07-15T00:00:00.000Z'', page = None, size = Some (Fin 3)\<rparr>"
         and d = "\<lparr>count = Some (Fin 7), uploads = [\<lparr>created = ''2021-07-14T19:27:14.934572+00:00''\<rparr>,
          \<lparr>created = ''2021-07-13T19:27:14.934572+00:00''\<rparr>]\<rparr>"
         and resp = "\<lparr>body = [\<lparr>created = ''2021-07-14T19:27:14.934572+00:00''\<rparr>,
          \<lparr>created = ''2021-07-13T19:27:14.934572+00:00''\<rparr>],
            headers = [''Count'' \<mapsto> JSNumber (Fin 7), ''Size'' \<mapsto> JSNumber (Fin 3)]\<rparr>"]
      C6_count_header_always_present
      [where pagination = "(\<lambda>_. Inr \<lparr>before = Some ''2021-07-15T00:00:00.000Z'', page = None, size = Some (Fin 3)\<rparr>)"
         and request = "\<lparr>pathname = ''/user/uploads'',
            searchParams = [(''before'', ''2021-07-15T00:00:00.000Z''), (''size'', ''3'')],
            user_id = ''u1''\<rparr>"
         and db = "\<lparr>listUploads = (\<lambda>_ _. Inr \<lparr>count = None, uploads = [\<lparr>created = ''2021-07-14T19:27:14.934572+00:00''\<rparr>,
          \<lparr>created = ''2021-07-13T19:27:14.934572+00:00''\<rparr>]\<rparr>),
            listKeys = (\<lambda>_. Inr []),
            listPsaPinRequests = (\<lambda>_ (_ :: unit psa_query). Inr \<lparr>count = None, results = []\<rparr>)\<rparr>"
         and pr = "\<lparr>before = Some ''2021-07-15T00:00:00.000Z'', page = None, size = Some (Fin 3)\<rparr>"
         and d = "\<lparr>count = None, uploads = [\<lparr>created = ''2021-07-14T19:27:14.934572+00:00''\<rparr>,
          \<lparr>created = ''2021-07-13T19:27:14.934572+00:00''\<rparr>]\<rparr>"
         and resp = "\<lparr>body = [\<lparr>created = ''2021-07-14T19:27:14.934572+00:00''\<rparr>,
          \<lparr>created = ''2021-07-13T19:27:14.934572+00:00''\<rparr>],
            headers = [''Count'' \<mapsto> JSUndefined, ''Size'' \<mapsto> JSNumber (Fin 3)]\<rparr>"]
    by (simp add: field_def)
qed

text \<open>
  C6 as stated fails: a cursor-mode request answered without a count still gets a
  \<^verbatim>\<open>Count\<close> key in its headers.
\<close>

theorem C6_counterexample:
  "\<not> isl (userUploadsGet
            (\<lambda>_. Inr \<lparr>before = Some ''2021-07-15T00:00:00.000Z'', page = None, size = Some (Fin 3)\<rparr>)
           \<lparr>listUploads = (\<lambda>_ _. Inr \<lparr>count = None, uploads = [\<lparr>created = ''2021-07-14T19:27:14.934572+00:00''\<rparr>,
                       \<lparr>created = ''2021-07-13T19:27:14.934572+00:00''\<rparr>]\<rparr>),
            listKeys = (\<lambda>_. Inr []),
            listPsaPinRequests = (\<lambda>_ (_ :: unit psa_query). Inr \<lparr>count = None, results = []\<rparr>)\<rparr>
           \<lparr>pathname = ''/user/uploads'',
            searchParams = [(''before'', ''2021-07-15T00:00:00.000Z''), (''size'', ''3'')],
            user_id = ''u1''\<rparr>)
   \<and> headers (projr (userUploadsGet
            (\<lambda>_. Inr \<lparr>before = Some ''2021-07-15T00:00:00.000Z'', page = None, size = Some (Fin 3)\<rparr>)
           \<lparr>listUploads = (\<lambda>_ _. Inr \<lparr>count = None, uploads = [\<lparr>created = ''2021-07-14T19:27:14.934572+00:00''\<rparr>,
                       \<lparr>created = ''2021-07-13T19:27:14.934572+00:00''\<rparr>]\<rparr>),
            listKeys = (\<lambda>_. Inr []),
            listPsaPinRequests = (\<lambda>_ (_ :: unit psa_query). Inr \<lparr>count = None, results = []\<rparr>)\<rparr>
           \<lparr>pathname = ''/user/uploads'',
            searchParams = [(''before'', ''2021-07-15T00:00:00.000Z''), (''size'', ''3'')],
            user_id = ''u1''\<rparr>)) ''Count'' = Some JSUndefined
   \<and> headers (projr (userUploadsGet
            (\<lambda>_. Inr \<lparr>before = Some ''2021-07-15T00:00:00.000Z'', page = None, size = Some (Fin 3)\<rparr>)
           \<lparr>listUploads = (\<lambda>_ _. Inr \<lparr>count = None, uploads = [\<lparr>created = ''2021-07-14T19:27:14.934572+00:00''\<rparr>,
                       \<lparr>created = ''2021-07-13T19:27:14.934572+00:00''\<rparr>]\<rparr>),
            listKeys = (\<lambda>_. Inr []),
            listPsaPinRequests = (\<lambda>_ (_ :: unit psa_query). Inr \<lparr>count = None, results = []\<rparr>)\<rparr>
           \<lparr>pathname = ''/user/uploads'',
            searchParams = [(''before'', ''2021-07-15T00:00:00.000Z''), (''size'', ''3'')],
            user_id = ''u1''\<rparr>)) ''Count'' \<noteq> None"
  by (simp add: userUploadsGet_def getLinkHeader_def rels_def length_eq_def field_def)

text \<open>
  C7. A page request with neither a \<^verbatim>\<open>before\<close> nor a \<^verbatim>\<open>page\<close> key makes
  \<^verbatim>\<open>getLinkHeader\<close> throw (\<^verbatim>\<open>Error('unknown page request type')\<close>); no header comes back.
\<close>

theorem C7_unknown_page_request_type:
  assumes "before pr = None" and "page pr = None"
  shows "getLinkHeader url pr items cnt = Inl (Error ''unknown page request type'')"
  using assms by (simp add: getLinkHeader_def rels_def)

theorem C7_witness:
  "before \<lparr>before = None, page = None, size = Some (Fin 2)\<rparr> = None
   \<and> page \<lparr>before = None, page = None, size = Some (Fin 2)\<rparr> = None
   \<and> getLinkHeader ''/user/uploads'' \<lparr>before = None, page = None, size = Some (Fin 2)\<rparr>
         [\<lparr>created = ''2021-07-14T19:27:14.934572+00:00''\<rparr>] (Some (Fin 1))
       = Inl (Error ''unknown page request type'')"
  using C7_unknown_page_request_type
      [of "\<lparr>before = None, page = None, size = Some (Fin 2)\<rparr>" "''/user/uploads''"
          "[\<lparr>created = ''2021-07-14T19:27:14.934572+00:00''\<rparr>]" "Some (Fin 1)"]
  by simp

text \<open>
  C8. When the list call of the data layer throws, \<^verbatim>\<open>userUploadsGet\<close> and \<^verbatim>\<open>userPinsGet\<close>
  throw \<^verbatim>\<open>RangeNotSatisfiableError\<close> if the thrown value's \<^verbatim>\<open>code\<close> is
  \<^verbatim>\<open>RANGE_NOT_SATISFIABLE_ERROR_DB\<close>, and the thrown value itself otherwise; no response
  is returned.
\<close>

theorem C8_range_not_satisfiable_translated:
  assumes "pagination (searchParams request) = Inr pr"
  shows "(listUploads db (user_id request) pr = Inl err \<longrightarrow>
            userUploadsGet pagination db request =
              (if code err = Some ''RANGE_NOT_SATISFIABLE_ERROR_DB''
               then Inl RangeNotSatisfiableError else Inl (Thrown err)))
         \<and> (params_error (validateSearchParams (map_of (rev (searchParams request)))) = None
             \<and> listKeys db (user_id request) = Inr keys
             \<and> listPsaPinRequests db (map key_id keys)
                  \<lparr>spread = params_data (validateSearchParams (map_of (rev (searchParams request)))),
                   limit = field (size pr),
                   offset = JSNumber (num_mul (ToNumber (size pr))
                                        (num_sub (ToNumber (page pr)) (Fin 1)))\<rparr> = Inl err \<longrightarrow>
            userPinsGet pagination validateSearchParams toPinStatusResponse db request =
              (if code err = Some ''RANGE_NOT_SATISFIABLE_ERROR_DB''
               then Inl RangeNotSatisfiableError else Inl (Thrown err)))"
  using assms by (simp add: userUploadsGet_def userPinsGet_def Let_def)

theorem C8_witness:
  "userUploadsGet
            (\<lambda>_. Inr \<lparr>before = None, page = Some (Fin 1), size = Some (Fin 2)\<rparr>)
           \<lparr>listUploads = (\<lambda>_ _. Inl \<lparr>code = Some ''RANGE_NOT_SATISFIABLE_ERROR_DB'', message = ''failed''\<rparr>),
            listKeys = (\<lambda>_. Inr [\<lparr>key_id = ''k1''\<rparr>]),
            listPsaPinRequests =
              (\<lambda>_ (_ :: unit psa_query).
                 (Inl \<lparr>code = Some ''RANGE_NOT_SATISFIABLE_ERROR_DB'', message = ''failed''\<rparr> :: thrown + unit pin_requests))\<rparr>
           \<lparr>pathname = ''/user/uploads'',
            searchParams = [(''page'', ''1''), (''size'', ''2'')],
            user_id = ''u1''\<rparr>
     = Inl RangeNotSatisfiableError
   \<and> userPinsGet
            (\<lambda>_. Inr \<lparr>before = None, page = Some (Fin 1), size = Some (Fin 2)\<rparr>)
            (\<lambda>_. \<lparr>params_error = None, params_data = ()\<rparr>) created
           \<lparr>listUploads = (\<lambda>_ _. Inl \<lparr>code = Some ''RANGE_NOT_SATISFIABLE_ERROR_DB'', message = ''failed''\<rparr>),
            listKeys = (\<lambda>_. Inr [\<lparr>key_id = ''k1''\<rparr>]),
            listPsaPinRequests =
              (\<lambda>_ (_ :: unit psa_query).
                 (Inl \<lparr>code = Some ''RANGE_NOT_SATISFIABLE_ERROR_DB'', message = ''failed''\<rparr> :: thrown + unit pin_requests))\<rparr>
           \<lparr>pathname = ''/user/pins'',
            searchParams = [(''page'', ''1''), (''size'', ''2'')],
            user_id = ''u1''\<rparr>
     = Inl RangeNotSatisfiableError
   \<and> userUploadsGet
            (\<lambda>_. Inr \<lparr>before = None, page = Some (Fin 1), size = Some (Fin 2)\<rparr>)
           \<lparr>listUploads = (\<lambda>_ _. Inl \<lparr>code = Some ''PGRST301'', message = ''failed''\<rparr>),
            listKeys = (\<lambda>_. Inr [\<lparr>key_id = ''k1''\<rparr>]),
            listPsaPinRequests =
              (\<lambda>_ (_ :: unit psa_query).
                 (Inl \<lparr>code = Some ''PGRST301'', message = ''failed''\<rparr> :: thrown + unit pin_requests))\<rparr>
           \<lparr>pathname = ''/user/uploads'',
            searchParams = [(''page'', ''1''), (''size'', ''2'')],
            user_id = ''u1''\<rparr>
     = Inl (Thrown \<lparr>code = Some ''PGRST301'', message = ''failed''\<rparr>)
   \<and> userPinsGet
            (\<lambda>_. Inr \<lparr>before = None, page = Some (Fin 1), size = Some (Fin 2)\<rparr>)
            (\<lambda>_. \<lparr>params_error = None, params_data = ()\<rparr>) created
           \<lparr>listUploads = (\<lambda>_ _. Inl \<lparr>code = Some ''PGRST301'', message = ''failed''\<rparr>),
            listKeys = (\<lambda>_. Inr [\<lparr>key_id = ''k1''\<rparr>]),
            listPsaPinRequests =
              (\<lambda>_ (_ :: unit psa_query).
                 (Inl \<lparr>code = Some ''PGRST301'', message = ''failed''\<rparr> :: thrown + unit pin_requests))\<rparr>
           \<lparr>pathname = ''/user/pins'',
            searchParams = [(''page'', ''1''), (''size'', ''2'')],
            user_id = ''u1''\<rparr>
     = Inl (Thrown \<lparr>code = Some ''PGRST301'', message = ''failed''\<rparr>)"
  using C8_range_not_satisfiable_translated
      [where pagination = "(\<lambda>_. Inr \<lparr>before = None, page = Some (Fin 1), size = Some (Fin 2)\<rparr>)"
         and request = "\<lparr>pathname = ''/user/uploads'',
            searchParams = [(''page'', ''1''), (''size'', ''2'')],
            user_id = ''u1''\<rparr>"
         and db = "\<lparr>listUploads = (\<lambda>_ _. Inl \<lparr>code = Some ''RANGE_NOT_SATISFIABLE_ERROR_DB'', message = ''failed''\<rparr>),
            listKeys = (\<lambda>_. Inr [\<lparr>key_id = ''k1''\<rparr>]),
            listPsaPinRequests =
              (\<lambda>_ (_ :: unit psa_query).
                 (Inl \<lparr>code = Some ''RANGE_NOT_SATISFIABLE_ERROR_DB'', message = ''failed''\<rparr> :: thrown + unit pin_requests))\<rparr>"
         and pr = "\<lparr>before = None, page = Some (Fin 1), size = Some (Fin 2)\<rparr>"
         and err = "\<lparr>code = Some ''RANGE_NOT_SATISFIABLE_ERROR_DB'', message = ''failed''\<rparr>"
         and validateSearchParams = "(\<lambda>_. \<lparr>params_error = None, params_data = ()\<rparr>)"
         and toPinStatusResponse = created
         and keys = "[\<lparr>key_id = ''k1''\<rparr>]"]
    C8_range_not_satisfiable_translated
      [where pagination = "(\<lambda>_. Inr \<lparr>before = None, page = Some (Fin 1), size = Some (Fin 2)\<rparr>)"
         and request = "\<lparr>pathname = ''/user/pins'',
            searchParams = [(''page'', ''1''), (''size'', ''2'')],
            user_id = ''u1''\<rparr>"
         and db = "\<lparr>listUploads = (\<lambda>_ _. Inl \<lparr>code = Some ''RANGE_NOT_SATISFIABLE_ERROR_DB'', message = ''failed''\<rparr>),
            listKeys = (\<lambda>_. Inr [\<lparr>key_id = ''k1''\<rparr>]),
            listPsaPinRequests =
              (\<lambda>_ (_ :: unit psa_query).
                 (Inl \<lparr>code = Some ''RANGE_NOT_SATISFIABLE_ERROR_DB'', message = ''failed''\<rparr> :: thrown + unit pin_requests))\<rparr>"
         and pr = "\<lparr>before = None, page = Some (Fin 1), size = Some (Fin 2)\<rparr>"
         and err = "\<lparr>code = Some ''RANGE_NOT_SATISFIABLE_ERROR_DB'', message = ''failed''\<rparr>"
         and validateSearchParams = "(\<lambda>_. \<lparr>params_error = None, params_data = ()\<rparr>)"
         and toPinStatusResponse = created
         and keys = "[\<lparr>key_id = ''k1''\<rparr>]"]
    C8_range_not_satisfiable_translated
      [where pagination = "(\<lambda>_. Inr \<lparr>before = None, page = Some (Fin 1), size = Some (Fin 2)\<rparr>)"
         and request = "\<lparr>pathname = ''/user/uploads'',
            searchParams = [(''page'', ''1''), (''size'', ''2'')],
            user_id = ''u1''\<rparr>"
         and db = "\<lparr>listUploads = (\<lambda>_ _. Inl \<lparr>code = Some ''PGRST301'', message = ''failed''\<rparr>),
            listKeys = (\<lambda>_. Inr [\<lparr>key_id = ''k1''\<rparr>]),
            listPsaPinRequests =
              (\<lambda>_ (_ :: unit psa_query).
                 (Inl \<lparr>code = Some ''PGRST301'', message = ''failed''\<rparr> :: thrown + unit pin_requests))\<rparr>"
         and pr = "\<lparr>before = None, page = Some (Fin 1), size = Some (Fin 2)\<rparr>"
         and err = "\<lparr>code = Some ''PGRST301'', message = ''failed''\<rparr>"
         and validateSearchParams = "(\<lambda>_. \<lparr>params_error = None, params_data = ()\<rparr>)"
         and toPinStatusResponse = created
         and keys = "[\<lparr>key_id = ''k1''\<rparr>]"]
    C8_range_not_satisfiable_translated
      [where pagination = "(\<lambda>_. Inr \<lparr>before = None, page = Some (Fin 1), size = Some (Fin 2)\<rparr>)"
         and request = "\<lparr>pathname = ''/user/pins'',
            searchParams = [(''page'', ''1''), (''size'', ''2'')],
            user_id = ''u1''\<rparr>"
         and db = "\<lparr>listUploads = (\<lambda>_ _. Inl \<lparr>code = Some ''PGRST301'', message = ''failed''\<rparr>),
            listKeys = (\<lambda>_. Inr [\<lparr>key_id = ''k1''\<rparr>]),
            listPsaPinRequests =
              (\<lambda>_ (_ :: unit psa_query).
                 (Inl \<lparr>code = Some ''PGRST301'', message = ''failed''\<rparr> :: thrown + unit pin_requests))\<rparr>"
         and pr = "\<lparr>before = None, page = Some (Fin 1), size = Some (Fin 2)\<rparr>"
         and err = "\<lparr>code = Some ''PGRST301'', message = ''failed''\<rparr>"
         and validateSearchParams = "(\<lambda>_. \<lparr>params_error = None, params_data = ()\<rparr>)"
         and toPinStatusResponse = created
         and keys = "[\<lparr>key_id = ''k1''\<rparr>]"]
  by simp

text \<open>
  C9. In offset mode the header string is the relations in the order \<^verbatim>\<open>next\<close> (when
  emitted), \<^verbatim>\<open>last\<close>, \<^verbatim>\<open>first\<close>, \<^verbatim>\<open>previous\<close> (when emitted), separated by \<^verbatim>\<open>", "\<close>.
\<close>

theorem C9_relation_order:
  assumes "before pr = None" and "page pr = Some p"
  shows "getLinkHeader url pr items cnt =
     Inr ((if num_less p (ceil_div (ToNumber cnt) (ToNumber (size pr)))
           then relation url (URLSearchParams
                   [(''size'', field (size pr)), (''page'', JSNumber (num_add p (Fin 1)))]) ''next''
                @ '', ''
           else [])
          @ relation url (URLSearchParams
               [(''size'', field (size pr)),
                (''page'', JSNumber (ceil_div (ToNumber cnt) (ToNumber (size pr))))]) ''last''
          @ '', ''
          @ relation url (URLSearchParams
               [(''size'', field (size pr)), (''page'', JSNumber (Fin 1))]) ''first''
          @ (if num_less (Fin 1) p
             then '', '' @
                  relation url (URLSearchParams
                     [(''size'', field (size pr)), (''page'', JSNumber (num_sub p (Fin 1)))]) ''previous''
             else []))"
  using assms by (simp add: getLinkHeader_def rels_offset)

theorem C9_witness:
  "before \<lparr>before = None, page = Some (Fin 2), size = Some (Fin 2)\<rparr> = None
   \<and> getLinkHeader ''/user/uploads'' \<lparr>before = None, page = Some (Fin 2), size = Some (Fin 2)\<rparr>
         ([] :: Item list) (Some (Fin 5))
       = Inr (''</user/uploads?size=2&page=3>; rel='' @ [CHR 0x22] @ ''next'' @ [CHR 0x22]
              @ '', </user/uploads?size=2&page=3>; rel='' @ [CHR 0x22] @ ''last'' @ [CHR 0x22]
              @ '', </user/uploads?size=2&page=1>; rel='' @ [CHR 0x22] @ ''first'' @ [CHR 0x22]
              @ '', </user/uploads?size=2&page=1>; rel='' @ [CHR 0x22] @ ''previous'' @ [CHR 0x22])"
proof -
  have e: "getLinkHeader ''/user/uploads'' \<lparr>before = None, page = Some (Fin 2), size = Some (Fin 2)\<rparr>
         ([] :: Item list) (Some (Fin 5))
       = Inr (''</user/uploads?size=2&page=3>; rel='' @ [CHR 0x22] @ ''next'' @ [CHR 0x22]
              @ '', </user/uploads?size=2&page=3>; rel='' @ [CHR 0x22] @ ''last'' @ [CHR 0x22]
              @ '', </user/uploads?size=2&page=1>; rel='' @ [CHR 0x22] @ ''first'' @ [CHR 0x22]
              @ '', </user/uploads?size=2&page=1>; rel='' @ [CHR 0x22] @ ''previous'' @ [CHR 0x22])"
    by code_simp
  show ?thesis
    using e C9_relation_order
      [of "\<lparr>before = None, page = Some (Fin 2), size = Some (Fin 2)\<rparr>" "Fin 2"
          "''/user/uploads''" "[] :: Item list" "Some (Fin 5)"]
    by simp
qed

text \<open>
  C10. Once the data layer has answered, \<^verbatim>\<open>userUploadsGet\<close> puts a \<^verbatim>\<open>Link\<close> key into the
  headers exactly when the string of \<^verbatim>\<open>getLinkHeader\<close> is not empty, with that string as
  its value; so a cursor-mode request answered with fewer items than \<^verbatim>\<open>size\<close> gets no
  \<^verbatim>\<open>Link\<close> header.
\<close>

theorem C10_link_header_iff_nonempty:
  assumes "pagination (searchParams request) = Inr pr"
    and "listUploads db (user_id request) pr = Inr d"
  shows "(\<forall>link. getLinkHeader (pathname request) pr (uploads d) (count d) = Inr link \<longrightarrow>
            (\<exists>resp. userUploadsGet pagination db request = Inr resp
               \<and> (headers resp ''Link'' \<noteq> None \<longleftrightarrow> link \<noteq> [])
               \<and> (link \<noteq> [] \<longrightarrow> headers resp ''Link'' = Some (JSString link))))
         \<and> (\<forall>s. before pr \<noteq> None \<and> size pr = Some (Fin s) \<and> int (length (uploads d)) < s \<longrightarrow>
            (\<exists>resp. userUploadsGet pagination db request = Inr resp
               \<and> headers resp ''Link'' = None))"
proof (intro conjI allI impI)
  fix link
  assume l: "getLinkHeader (pathname request) pr (uploads d) (count d) = Inr link"
  show "\<exists>resp. userUploadsGet pagination db request = Inr resp
               \<and> (headers resp ''Link'' \<noteq> None \<longleftrightarrow> link \<noteq> [])
               \<and> (link \<noteq> [] \<longrightarrow> headers resp ''Link'' = Some (JSString link))"
    using userUploadsGet_ok [where pagination = pagination and request = request and pr = pr
        and db = db and d = d, OF assms l]
    by (simp add: Let_def)
next
  fix s
  assume c: "before pr \<noteq> None \<and> size pr = Some (Fin s) \<and> int (length (uploads d)) < s"
  then have "rels (pathname request) pr (uploads d) (count d) = Inr []"
    by (simp add: rels_cursor)
  then have l: "getLinkHeader (pathname request) pr (uploads d) (count d) = Inr []"
    using getLinkHeader_rels by fastforce
  show "\<exists>resp. userUploadsGet pagination db request = Inr resp \<and> headers resp ''Link'' = None"
    using userUploadsGet_ok [where pagination = pagination and request = request and pr = pr
        and db = db and d = d, OF assms l]
    by (simp add: Let_def)
qed

theorem C10_witness:
  "\<not> isl (userUploadsGet
            (\<lambda>_. Inr \<lparr>before = Some ''2021-07-15T00:00:00.000Z'', page = None, size = Some (Fin 3)\<rparr>)
           \<lparr>listUploads = (\<lambda>_ _. Inr \<lparr>count = Some (Fin 7), uploads = [\<lparr>created = ''2021-07-14T19:27:14.934572+00:00''\<rparr>,
                       \<lparr>created = ''2021-07-13T19:27:14.934572+00:00''\<rparr>]\<rparr>),
            listKeys = (\<lambda>_. Inr []),
            listPsaPinRequests = (\<lambda>_ (_ :: unit psa_query). Inr \<lparr>count = None, results = []\<rparr>)\<rparr>
           \<lparr>pathname = ''/user/uploads'',
            searchParams = [(''before'', ''2021-07-15T00:00:00.000Z''), (''size'', ''3'')],
            user_id = ''u1''\<rparr>)
   \<and> headers (projr (userUploadsGet
            (\<lambda>_. Inr \<lparr>before = Some ''2021-07-15T00:00:00.000Z'', page = None, size = Some (Fin 3)\<rparr>)
           \<lparr>listUploads = (\<lambda>_ _. Inr \<lparr>count = Some (Fin 7), uploads = [\<lparr>created = ''2021-07-14T19:27:14.934572+00:00''\<rparr>,
                       \<lparr>created = ''2021-07-13T19:27:14.934572+00:00''\<rparr>]\<rparr>),
            listKeys = (\<lambda>_. Inr []),
            listPsaPinRequests = (\<lambda>_ (_ :: unit psa_query). Inr \<lparr>count = None, results = []\<rparr>)\<rparr>
           \<lparr>pathname = ''/user/uploads'',
            searchParams = [(''before'', ''2021-07-15T00:00:00.000Z''), (''size'', ''3'')],
            user_id = ''u1''\<rparr>)) ''Link'' = None
   \<and> \<not> isl (userUploadsGet
            (\<lambda>_. Inr \<lparr>before = None, page = Some (Fin 1), size = Some (Fin 2)\<rparr>)
           \<lparr>listUploads = (\<lambda>_ _. Inr \<lparr>count = Some (Fin 5), uploads = [\<lparr>created = ''2021-07-14T19:27:14.934572+00:00''\<rparr>,
                       \<lparr>created = ''2021-07-13T19:27:14.934572+00:00''\<rparr>]\<rparr>),
            listKeys = (\<lambda>_. Inr []),
            listPsaPinRequests = (\<lambda>_ (_ :: unit psa_query). Inr \<lparr>count = None, results = []\<rparr>)\<rparr>
           \<lparr>pathname = ''/user/uploads'',
            searchParams = [(''page'', ''1''), (''size'', ''2'')],
            user_id = ''u1''\<rparr>)
   \<and> headers (projr (userUploadsGet
            (\<lambda>_. Inr \<lparr>before = None, page = Some (Fin 1), size = Some (Fin 2)\<rparr>)
           \<lparr>listUploads = (\<lambda>_ _. Inr \<lparr>count = Some (Fin 5), uploads = [\<lparr>created = ''2021-07-14T19:27:14.934572+00:00''\<rparr>,
                       \<lparr>created = ''2021-07-13T19:27:14.934572+00:00''\<rparr>]\<rparr>),
            listKeys = (\<lambda>_. Inr []),
            listPsaPinRequests = (\<lambda>_ (_ :: unit psa_query). Inr \<lparr>count = None, results = []\<rparr>)\<rparr>
           \<lparr>pathname = ''/user/uploads'',
            searchParams = [(''page'', ''1''), (''size'', ''2'')],
            user_id = ''u1''\<rparr>)) ''Link''
       = Some (JSString
           (''</user/uploads?size=2&page=2>; rel='' @ [CHR 0x22] @ ''next'' @ [CHR 0x22]
              @ '', </user/uploads?size=2&page=3>; rel='' @ [CHR 0x22] @ ''last'' @ [CHR 0x22]
              @ '', </user/uploads?size=2&page=1>; rel='' @ [CHR 0x22] @ ''first'' @ [CHR 0x22]))"
proof -
  have g: "getLinkHeader ''/user/uploads'' \<lparr>before = None, page = Some (Fin 1), size = Some (Fin 2)\<rparr>
         [\<lparr>created = ''2021-07-14T19:27:14.934572+00:00''\<rparr>,
                       \<lparr>created = ''2021-07-13T19:27:14.934572+00:00''\<rparr>] (Some (Fin 5))
       = Inr (''</user/uploads?size=2&page=2>; rel='' @ [CHR 0x22] @ ''next'' @ [CHR 0x22]
              @ '', </user/uploads?size=2&page=3>; rel='' @ [CHR 0x22] @ ''last'' @ [CHR 0x22]
              @ '', </user/uploads?size=2&page=1>; rel='' @ [CHR 0x22] @ ''first'' @ [CHR 0x22])"
    by code_simp
  show ?thesis
    using g
      C10_link_header_iff_nonempty
      [where pagination = "(\<lambda>_. Inr \<lparr>before = Some ''2021-07-15T00:00:00.000Z'', page = None, size = Some (Fin 3)\<rparr>)"
         and request = "\<lparr>pathname = ''/user/uploads'',
            searchParams = [(''before'', ''2021-07-15T00:00:00.000Z''), (''size'', ''3'')],
            user_id = ''u1''\<rparr>"
         and db = "\<lparr>listUploads = (\<lambda>_ _. Inr \<lparr>count = Some (Fin 7), uploads = [\<lparr>created = ''2021-07-14T19:27:14.934572+00:00''\<rparr>,
                       \<lparr>created = ''2021-07-13T19:27:14.934572+00:00''\<rparr>]\<rparr>),
            listKeys = (\<lambda>_. Inr []),
            listPsaPinRequests = (\<lambda>_ (_ :: unit psa_query). Inr \<lparr>count = None, results = []\<rparr>)\<rparr>"
         and pr = "\<lparr>before = Some ''2021-07-15T00:00:00.000Z'', page = None, size = Some (Fin 3)\<rparr>"
         and d = "\<lparr>count = Some (Fin 7), uploads = [\<lparr>created = ''2021-07-14T19:27:14.934572+00:00''\<rparr>,
                       \<lparr>created = ''2021-07-13T19:27:14.934572+00:00''\<rparr>]\<rparr>"]
      C10_link_header_iff_nonempty
      [where pagination = "(\<lambda>_. Inr \<lparr>before = None, page = Some (Fin 1), size = Some (Fin 2)\<rparr>)"
         and request = "\<lparr>pathname = ''/user/uploads'',
            searchParams = [(''page'', ''1''), (''size'', ''2'')],
            user_id = ''u1''\<rparr>"
         and db = "\<lparr>listUploads = (\<lambda>_ _. Inr \<lparr>count = Some (Fin 5), uploads = [\<lparr>created = ''2021-07-14T19:27:14.934572+00:00''\<rparr>,
                       \<lparr>created = ''2021-07-13T19:27:14.934572+00:00''\<rparr>]\<rparr>),
            listKeys = (\<lambda>_. Inr []),
            listPsaPinRequests = (\<lambda>_ (_ :: unit psa_query). Inr \<lparr>count = None, results = []\<rparr>)\<rparr>"
         and pr = "\<lparr>before = None, page = Some (Fin 1), size = Some (Fin 2)\<rparr>"
         and d = "\<lparr>count = Some (Fin 5), uploads = [\<lparr>created = ''2021-07-14T19:27:14.934572+00:00''\<rparr>,
                       \<lparr>created = ''2021-07-13T19:27:14.934572+00:00''\<rparr>]\<rparr>"]
    by auto
qed

end
